theory Spec2Isabelle
  imports Main "HOL-Library.AList"
begin

section \<open>Streams: io.Reader\<close>

text \<open>
  The package reads three kinds of streams through Go's \<^verbatim>\<open>io.Reader\<close>: the response
  body, the expected reference stream of \<^verbatim>\<open>ExpectedResponse\<close> and the body handed to
  \<^verbatim>\<open>WithMultipartRequest\<close>. Bytes are \<^typ>\<open>char\<close> (8 bits), a byte slice is a
  \<^typ>\<open>string\<close>.

  A call \<^verbatim>\<open>n, err := r.Read(buf)\<close> delivers at most \<^verbatim>\<open>len(buf)\<close> bytes and an
  error that is nil, \<^verbatim>\<open>io.EOF\<close> or a failure. A reader is modelled by the script of
  what its source makes available: a list of pieces, each with the error that
  accompanies its last byte. A read takes the next piece; when the buffer is shorter
  than the piece it takes as much as fits, with a nil error, and leaves the rest.
  A reader whose script is used up answers \<^verbatim>\<open>0, io.EOF\<close>, as \<^verbatim>\<open>bytes.Reader\<close> does.
  The script covers short reads, data delivered together with \<^verbatim>\<open>io.EOF\<close>, reads of
  zero bytes with a nil error, and failures.
\<close>

datatype rerr = EOF | Failure string

type_synonym reader = "(string \<times> rerr option) list"

fun Read :: "reader \<Rightarrow> nat \<Rightarrow> string \<times> rerr option \<times> reader" where
  "Read [] k = ([], Some EOF, [])"
| "Read ((bs, e) # rest) k =
     (if length bs \<le> k then (bs, e, rest)
      else (take k bs, None, (drop k bs, e) # rest))"

text \<open>
  \<^verbatim>\<open>bytes.NewReader(s)\<close> and \<^verbatim>\<open>strings.NewReader(s)\<close>: every read fills the buffer
  as far as data remains, with a nil error; once the data is used up a read answers
  \<^verbatim>\<open>0, io.EOF\<close>.
\<close>

definition bytesReader :: "string \<Rightarrow> reader" where
  "bytesReader s = (if s = [] then [] else [(s, None)])"

section \<open>The test handle: testing.TB\<close>

text \<open>
  \<^verbatim>\<open>t.Errorf\<close>, \<^verbatim>\<open>t.Fatal\<close> and \<^verbatim>\<open>t.Fatalf\<close> are called with a format and its
  arguments. A report keeps the call's arguments in the order of the format string;
  the comment of each constructor is the format of the source.
\<close>

datatype report =
    StatusMismatch string int string
      \<comment> \<open>\<^verbatim>\<open>"got response status %s, want %v %s"\<close>\<close>
  | HeaderMismatch string string string
      \<comment> \<open>\<^verbatim>\<open>"got header %q value %q, want %q"\<close>\<close>
  | DataNotEqual nat string string
      \<comment> \<open>\<^verbatim>\<open>"data not equal at position %v: got %q, want %q"\<close>\<close>
  | JSONMismatch string string
      \<comment> \<open>\<^verbatim>\<open>"got json response %q, want %q"\<close>\<close>
  | BodyNotEmpty string
      \<comment> \<open>\<^verbatim>\<open>"got response body %q, want none"\<close>\<close>
  | ReadInputFailed nat string
      \<comment> \<open>\<^verbatim>\<open>"read input data at position %v: %v"\<close>\<close>
  | ReadValidationFailed nat string
      \<comment> \<open>\<^verbatim>\<open>"read validation data at position %v: %v"\<close>\<close>
  | Err string
      \<comment> \<open>\<^verbatim>\<open>t.Fatal(err)\<close>\<close>

text \<open>
  The handle records what the mock of the package's tests records: whether
  \<^verbatim>\<open>Helper\<close> was called, the non-fatal reports in the order of the calls, and the
  fatal report. A fatal report stops the run (\<^verbatim>\<open>FailNow\<close>): every function below
  returns at once after \<open>Fatal\<close>. The functions take any extension of the record, so
  that they also work on the state of \<^verbatim>\<open>Request\<close> below, which extends the handle.
\<close>

record TB =
  isHelper :: bool
  errors :: "report list"
  fatal :: "report option"

definition Helper :: "'a TB_scheme \<Rightarrow> 'a TB_scheme" where
  "Helper t = t\<lparr>isHelper := True\<rparr>"

definition Errorf :: "'a TB_scheme \<Rightarrow> report \<Rightarrow> 'a TB_scheme" where
  "Errorf t r = t\<lparr>errors := errors t @ [r]\<rparr>"

definition Fatal :: "'a TB_scheme \<Rightarrow> report \<Rightarrow> 'a TB_scheme" where
  "Fatal t r = t\<lparr>fatal := Some r\<rparr>"

section \<open>readerContentEqual\<close>

definition bufSize :: nat where
  "bufSize = 128"

text \<open>
  The loop of \<^verbatim>\<open>readerContentEqual\<close>. Its state is the handle, the lengths of
  \<^verbatim>\<open>buf1\<close> and \<^verbatim>\<open>buf2\<close> (the statements \<^verbatim>\<open>buf1 = buf1[:n1]\<close> and
  \<^verbatim>\<open>buf2 = buf2[:n2]\<close> shorten the slices that the next reads are given), the cursor
  and the two readers. The variable \<^verbatim>\<open>err\<close> is assigned by both reads, so the test
  \<^verbatim>\<open>err == io.EOF\<close> at the end of the body sees the error of the read of \<^verbatim>\<open>r2\<close>.
  The loop has no bound: a run that never leaves it is the value \<open>None\<close>.
\<close>

partial_function (option) readerLoop ::
  "'a TB_scheme \<Rightarrow> nat \<Rightarrow> nat \<Rightarrow> nat \<Rightarrow> reader \<Rightarrow> reader \<Rightarrow> 'a TB_scheme option" where
  "readerLoop t len1 len2 cursor r1 r2 =
     (case Read r1 len1 of (buf1, err1, r1') \<Rightarrow>
        (case err1 of
           Some (Failure e) \<Rightarrow> Some (Fatal t (ReadInputFailed cursor e))
         | _ \<Rightarrow>
           (case Read r2 len2 of (buf2, err2, r2') \<Rightarrow>
              (case err2 of
                 Some (Failure e) \<Rightarrow> Some (Fatal t (ReadValidationFailed cursor e))
               | _ \<Rightarrow>
                 if buf1 \<noteq> buf2 then Some (Errorf t (DataNotEqual cursor buf1 buf2))
                 else if err2 = Some EOF then Some t
                 else readerLoop t (length buf1) (length buf2) (cursor + length buf1) r1' r2'))))"

definition readerContentEqual ::
  "'a TB_scheme \<Rightarrow> reader \<Rightarrow> reader \<Rightarrow> 'a TB_scheme option" where
  "readerContentEqual t r1 r2 = readerLoop (Helper t) bufSize bufSize 0 r1 r2"

section \<open>The Go library\<close>

text \<open>
  \<^verbatim>\<open>io.ReadAll(r)\<close> reads until the first error and returns what it has read;
  \<^verbatim>\<open>io.EOF\<close> ends the reading and is not returned as an error. On a script the
  data does not depend on the sizes of the buffers that \<^verbatim>\<open>ReadAll\<close> offers, which are
  never empty, so the function is given on the script itself.
\<close>

fun ReadAll :: "reader \<Rightarrow> string \<times> string option" where
  "ReadAll [] = ([], None)"
| "ReadAll ((bs, None) # rest) = (case ReadAll rest of (d, e) \<Rightarrow> (bs @ d, e))"
| "ReadAll ((bs, Some EOF) # rest) = (bs, None)"
| "ReadAll ((bs, Some (Failure e)) # rest) = (bs, Some e)"

text \<open>
  \<^verbatim>\<open>io.Copy(dst, src)\<close> into a destination that takes every byte: the bytes copied
  and the error, which is nil when the source ends with \<^verbatim>\<open>io.EOF\<close>.
\<close>

definition Copy :: "reader \<Rightarrow> string \<times> string option" where
  "Copy src = ReadAll src"

text \<open>
  \<^verbatim>\<open>http.Header\<close> and \<^verbatim>\<open>textproto.MIMEHeader\<close> are maps from a key to the list
  of its values. They are association lists here, because \<^verbatim>\<open>Request\<close> ranges over
  the keys of the expected response headers; Go leaves the order of that iteration
  open, the model takes the order of insertion. A nil map is \<open>None\<close>. An option that
  stores a caller's map stores its value: that \<^verbatim>\<open>Add\<close> also changes the caller's map
  is not modelled.
\<close>

type_synonym Header = "(string \<times> string list) list"

definition Header_values :: "Header \<Rightarrow> string \<Rightarrow> string list" where
  "Header_values h k = (case map_of h k of None \<Rightarrow> [] | Some vs \<Rightarrow> vs)"

definition nilHeader :: "Header option \<Rightarrow> Header" where
  "nilHeader h = (case h of None \<Rightarrow> [] | Some m \<Rightarrow> m)"

text \<open>
  What the package uses of the Go library without being part of it is a parameter of
  the model: the JSON encoder and decoder over the values \<open>'v\<close> that a caller can
  pass as \<^verbatim>\<open>interface{}\<close> (the nil interface is \<open>None\<close>), the table of status
  texts, the canonical form of a header key, the errors of \<^verbatim>\<open>http.NewRequest\<close>,
  the trimming of Unicode white space, \<^verbatim>\<open>%q\<close> and \<^verbatim>\<open>strconv.Itoa\<close>, and the
  multipart writer (its boundary, the errors of \<^verbatim>\<open>CreatePart\<close> and \<^verbatim>\<open>Close\<close>, and
  the encoding of one part under a boundary and a part header).
\<close>

record 'v lib =
  Marshal :: "'v option \<Rightarrow> string + string"
  Decode :: "reader \<Rightarrow> string + 'v"
  StatusText :: "int \<Rightarrow> string"
  CanonicalMIMEHeaderKey :: "string \<Rightarrow> string"
  NewRequestErr :: "string \<Rightarrow> string \<Rightarrow> string option"
  TrimFunc_IsSpace :: "string \<Rightarrow> string"
  Quote :: "string \<Rightarrow> string"
  Itoa :: "int \<Rightarrow> string"
  Boundary :: string
  CreatePartErr :: "string option"
  CloseErr :: "string option"
  FormData :: "string \<Rightarrow> Header \<Rightarrow> string \<Rightarrow> string"

definition Header_Add :: "'v lib \<Rightarrow> Header \<Rightarrow> string \<Rightarrow> string \<Rightarrow> Header" where
  "Header_Add lib h key val =
     (let k = CanonicalMIMEHeaderKey lib key
      in AList.update k (Header_values h k @ [val]) h)"

definition Header_Set :: "'v lib \<Rightarrow> Header \<Rightarrow> string \<Rightarrow> string \<Rightarrow> Header" where
  "Header_Set lib h key val = AList.update (CanonicalMIMEHeaderKey lib key) [val] h"

definition Header_Get :: "'v lib \<Rightarrow> Header \<Rightarrow> string \<Rightarrow> string" where
  "Header_Get lib h key =
     (case Header_values h (CanonicalMIMEHeaderKey lib key) of [] \<Rightarrow> [] | v # _ \<Rightarrow> v)"

text \<open>
  \<^verbatim>\<open>bytes.TrimSpace\<close>, after the Go source: leading bytes of ASCII white space are
  skipped; if the first other byte is not ASCII the rest is left to
  \<^verbatim>\<open>TrimFunc(s, unicode.IsSpace)\<close>; otherwise trailing bytes of ASCII white space are
  skipped in the same way from the end.
\<close>

definition asciiSpace :: "char \<Rightarrow> bool" where
  "asciiSpace c = (c = CHR 0x09 \<or> c = CHR 0x0A \<or> c = CHR 0x0B \<or> c = CHR 0x0C
     \<or> c = CHR 0x0D \<or> c = CHR 0x20)"

definition RuneSelf :: nat where
  "RuneSelf = 128"

definition TrimSpace :: "'v lib \<Rightarrow> string \<Rightarrow> string" where
  "TrimSpace lib s =
     (case dropWhile asciiSpace s of
        [] \<Rightarrow> []
      | c # cs \<Rightarrow>
          if RuneSelf \<le> of_char c then TrimFunc_IsSpace lib (c # cs)
          else (case dropWhile asciiSpace (rev (c # cs)) of
                  [] \<Rightarrow> []
                | d # ds \<Rightarrow>
                    if RuneSelf \<le> of_char d then TrimFunc_IsSpace lib (rev (d # ds))
                    else rev (d # ds)))"

section \<open>Options\<close>

text \<open>
  A \<^verbatim>\<open>context.Context\<close> and the two pointers that options take (the target of
  \<^verbatim>\<open>UnmarshalJSONResponse\<close>, the byte slice of \<^verbatim>\<open>PutResponseBody\<close>) are
  identified by numbers; nil is \<open>None\<close>.
\<close>

type_synonym Context = nat
type_synonym ptr = nat

record 'v options =
  ctx :: "Context option"
  responseCode :: int
  requestBody :: "reader option"
  requestHeaders :: "Header option"
  responseHeaders :: "Header option"
  expectedResponse :: "reader option"
  expectedJSONResponse :: "'v option"
  unmarshalResponse :: "ptr option"
  responseBody :: "ptr option"
  noResponseBody :: bool

text \<open>\<^verbatim>\<open>new(options)\<close>: every field has its zero value.\<close>

definition new_options :: "'v options" where
  "new_options = \<lparr>ctx = None, responseCode = 0, requestBody = None, requestHeaders = None,
     responseHeaders = None, expectedResponse = None, expectedJSONResponse = None,
     unmarshalResponse = None, responseBody = None, noResponseBody = False\<rparr>"

text \<open>
  The interface \<^verbatim>\<open>Option\<close> has the unexported method \<^verbatim>\<open>apply\<close>, so its values are
  the closures that the thirteen constructors of the package return: a value of the
  datatype is the constructor with its arguments, and \<open>applyOption\<close> is the body of
  its closure. The body of \<^verbatim>\<open>WithMultipartRequest\<close> is a reader: with a nil body
  \<^verbatim>\<open>io.Copy\<close> panics.
\<close>

datatype 'v Option =
    WithContext "Context option"
  | WithRequestBody "reader option"
  | WithJSONRequestBody "'v option"
  | WithMultipartRequest reader int string string
  | WithRequestHeader string string
  | WithRequestHeaders "Header option"
  | ExpectStatus int
  | ExpectResponseHeader string string
  | ExpectedResponse "reader option"
  | ExpectedJSONResponse "'v option"
  | UnmarshalJSONResponse "ptr option"
  | PutResponseBody "ptr option"
  | ExpectNoResponseBody

text \<open>The part header that \<^verbatim>\<open>WithMultipartRequest\<close> builds.\<close>

definition partHeader :: "'v lib \<Rightarrow> int \<Rightarrow> string \<Rightarrow> string \<Rightarrow> Header" where
  "partHeader lib len filename contentType =
     (let hdr = [];
          hdr = (if filename \<noteq> [] then
                   Header_Set lib hdr ''Content-Disposition''
                     (''form-data; name='' @ Quote lib filename)
                 else hdr);
          hdr = (if contentType \<noteq> [] then Header_Set lib hdr ''Content-Type'' contentType
                 else hdr);
          hdr = (if len > 0 then Header_Set lib hdr ''Content-Length'' (Itoa lib len)
                 else hdr)
      in hdr)"

fun applyOption :: "'v lib \<Rightarrow> 'v Option \<Rightarrow> 'v options \<Rightarrow> string + 'v options" where
  "applyOption lib (WithContext c) cfg = Inr (cfg\<lparr>ctx := c\<rparr>)"
| "applyOption lib (WithRequestBody body) cfg = Inr (cfg\<lparr>requestBody := body\<rparr>)"
| "applyOption lib (WithJSONRequestBody r) cfg =
     (case Marshal lib r of
        Inl err \<Rightarrow> Inl (''json encode request body: '' @ err)
      | Inr b \<Rightarrow> Inr (cfg\<lparr>requestBody := Some (bytesReader b)\<rparr>))"
| "applyOption lib (WithMultipartRequest body len filename contentType) cfg =
     (case CreatePartErr lib of
        Some err \<Rightarrow> Inl (''create multipart part: '' @ err)
      | None \<Rightarrow>
          (case Copy body of
             (data, Some err) \<Rightarrow> Inl (''copy file data to multipart part: '' @ err)
           | (data, None) \<Rightarrow>
               (case CloseErr lib of
                  Some err \<Rightarrow> Inl (''close multipart writer: '' @ err)
                | None \<Rightarrow>
                    Inr (cfg\<lparr>requestBody :=
                               Some (bytesReader (FormData lib (Boundary lib)
                                 (partHeader lib len filename contentType) data)),
                             requestHeaders :=
                               Some (Header_Set lib (nilHeader (requestHeaders cfg))
                                 ''Content-Type''
                                 (''multipart/form-data; boundary='' @
                                    Quote lib (Boundary lib)))\<rparr>))))"
| "applyOption lib (WithRequestHeader key val) cfg =
     Inr (cfg\<lparr>requestHeaders :=
                Some (Header_Add lib (nilHeader (requestHeaders cfg)) key val)\<rparr>)"
| "applyOption lib (WithRequestHeaders h) cfg = Inr (cfg\<lparr>requestHeaders := h\<rparr>)"
| "applyOption lib (ExpectStatus code) cfg = Inr (cfg\<lparr>responseCode := code\<rparr>)"
| "applyOption lib (ExpectResponseHeader key val) cfg =
     Inr (cfg\<lparr>responseHeaders :=
                Some (Header_Add lib (nilHeader (responseHeaders cfg)) key val)\<rparr>)"
| "applyOption lib (ExpectedResponse r) cfg = Inr (cfg\<lparr>expectedResponse := r\<rparr>)"
| "applyOption lib (ExpectedJSONResponse response) cfg =
     Inr (cfg\<lparr>expectedJSONResponse := response\<rparr>)"
| "applyOption lib (UnmarshalJSONResponse response) cfg =
     Inr (cfg\<lparr>unmarshalResponse := response\<rparr>)"
| "applyOption lib (PutResponseBody b) cfg = Inr (cfg\<lparr>responseBody := b\<rparr>)"
| "applyOption lib ExpectNoResponseBody cfg = Inr (cfg\<lparr>noResponseBody := True\<rparr>)"

text \<open>
  The loop over \<^verbatim>\<open>opts\<close> at the start of \<^verbatim>\<open>Request\<close>: the options change the
  configuration one after the other and the first error ends the loop.
\<close>

fun applyOptions :: "'v lib \<Rightarrow> 'v Option list \<Rightarrow> 'v options \<Rightarrow> string + 'v options" where
  "applyOptions lib [] cfg = Inr cfg"
| "applyOptions lib (opt # opts) cfg =
     (case applyOption lib opt cfg of
        Inl err \<Rightarrow> Inl err
      | Inr cfg' \<Rightarrow> applyOptions lib opts cfg')"

section \<open>Request\<close>

record request =
  Method :: string
  URL :: string
  ReqBody :: "reader option"
  Header :: "Header option"
  Ctx :: "Context option"

record response =
  StatusCode :: int
  Status :: string
  RespHeader :: Header
  Body :: reader

text \<open>
  The five ways in which \<^verbatim>\<open>Request\<close> deals with the response body, in the order of
  its \<^verbatim>\<open>if\<close> statements.
\<close>

datatype bodyAction = StreamComparison | JSONEquality | JSONDecode | RawCapture | AssertEmpty

text \<open>
  The state that a call of \<^verbatim>\<open>Request\<close> changes: the test handle, the variables
  behind the pointers of \<^verbatim>\<open>PutResponseBody\<close> and \<^verbatim>\<open>UnmarshalJSONResponse\<close>,
  and two histories that the program does not hold as variables: the requests handed
  to \<^verbatim>\<open>client.Do\<close> and the branches of the body validation that were entered.
\<close>

record 'v world = TB +
  sent :: "request list"
  ran :: "bodyAction list"
  byteVars :: "ptr \<Rightarrow> string option"
  jsonVars :: "ptr \<Rightarrow> 'v option"

text \<open>
  \<^verbatim>\<open>http.NewRequest(method, url, o.requestBody)\<close> followed by the assignment of the
  headers and, for a context that is not nil, \<^verbatim>\<open>req.WithContext(o.ctx)\<close>.
\<close>

definition newRequest :: "string \<Rightarrow> string \<Rightarrow> 'v options \<Rightarrow> request" where
  "newRequest httpMethod url cfg =
     (let req = \<lparr>Method = httpMethod, URL = url, ReqBody = requestBody cfg, Header = None,
                 Ctx = None\<rparr>;
          req = req\<lparr>Header := requestHeaders cfg\<rparr>;
          req = (if ctx cfg \<noteq> None then req\<lparr>Ctx := ctx cfg\<rparr> else req)
      in req)"

text \<open>Lines 63 to 67: the status code.\<close>

definition checkStatus :: "'v lib \<Rightarrow> 'v options \<Rightarrow> response \<Rightarrow> 'a TB_scheme \<Rightarrow> 'a TB_scheme" where
  "checkStatus lib cfg resp t =
     (if responseCode cfg \<noteq> 0 then
        (if StatusCode resp \<noteq> responseCode cfg then
           Errorf t (StatusMismatch (Status resp) (responseCode cfg)
             (StatusText lib (responseCode cfg)))
         else t)
      else t)"

text \<open>Lines 69 to 75: the expected response headers, key by key.\<close>

definition checkHeader ::
  "'v lib \<Rightarrow> 'v options \<Rightarrow> response \<Rightarrow> 'a TB_scheme \<Rightarrow> string \<Rightarrow> 'a TB_scheme" where
  "checkHeader lib cfg resp t key =
     (let want = Header_Get lib (nilHeader (responseHeaders cfg)) key;
          got = Header_Get lib (RespHeader resp) key
      in if got \<noteq> want then Errorf t (HeaderMismatch key got want) else t)"

definition checkHeaders :: "'v lib \<Rightarrow> 'v options \<Rightarrow> response \<Rightarrow> 'a TB_scheme \<Rightarrow> 'a TB_scheme" where
  "checkHeaders lib cfg resp t =
     foldl (checkHeader lib cfg resp) t (map fst (nilHeader (responseHeaders cfg)))"

text \<open>Lines 77 to 125: the response body.\<close>

definition checkBody :: "'v lib \<Rightarrow> 'v options \<Rightarrow> response \<Rightarrow> 'v world \<Rightarrow> 'v world option" where
  "checkBody lib cfg resp t =
     (case expectedResponse cfg of
        Some r2 \<Rightarrow>
          readerContentEqual (t\<lparr>ran := ran t @ [StreamComparison]\<rparr>) (Body resp) r2
      | None \<Rightarrow>
     (case expectedJSONResponse cfg of
        Some v \<Rightarrow>
          (let t = t\<lparr>ran := ran t @ [JSONEquality]\<rparr>
           in case ReadAll (Body resp) of
                (got, Some err) \<Rightarrow> Some (Fatal t (Err err))
              | (got, None) \<Rightarrow>
                  (let got = TrimSpace lib got
                   in case Marshal lib (expectedJSONResponse cfg) of
                        Inl err \<Rightarrow> Some (Fatal t (Err err))
                      | Inr want \<Rightarrow>
                          if got \<noteq> want then Some (Errorf t (JSONMismatch got want))
                          else Some t))
      | None \<Rightarrow>
     (case unmarshalResponse cfg of
        Some p \<Rightarrow>
          (let t = t\<lparr>ran := ran t @ [JSONDecode]\<rparr>
           in case Decode lib (Body resp) of
                Inl err \<Rightarrow> Some (Fatal t (Err err))
              | Inr v \<Rightarrow> Some (t\<lparr>jsonVars := (jsonVars t)(p \<mapsto> v)\<rparr>))
      | None \<Rightarrow>
     (case responseBody cfg of
        Some p \<Rightarrow>
          (let t = t\<lparr>ran := ran t @ [RawCapture]\<rparr>
           in case ReadAll (Body resp) of
                (got, Some err) \<Rightarrow> Some (Fatal t (Err err))
              | (got, None) \<Rightarrow> Some (t\<lparr>byteVars := (byteVars t)(p \<mapsto> got)\<rparr>))
      | None \<Rightarrow>
     (if noResponseBody cfg then
        (let t = t\<lparr>ran := ran t @ [AssertEmpty]\<rparr>
         in case ReadAll (Body resp) of
              (got, Some err) \<Rightarrow> Some (Fatal t (Err err))
            | (got, None) \<Rightarrow>
                if length got > 0 then Some (Errorf t (BodyNotEmpty got)) else Some t)
      else Some t)))))"

text \<open>
  \<^verbatim>\<open>Request\<close>. The client is the function from the request to the error or the
  response of \<^verbatim>\<open>client.Do\<close>. The parameter \<^verbatim>\<open>method\<close> of the source is
  \<open>httpMethod\<close> here, and its variable \<^verbatim>\<open>o\<close> is \<open>cfg\<close>.
\<close>

definition Request ::
  "'v lib \<Rightarrow> 'v world \<Rightarrow> (request \<Rightarrow> string + response) \<Rightarrow> string \<Rightarrow> string \<Rightarrow>
     'v Option list \<Rightarrow> 'v world option" where
  "Request lib t client httpMethod url opts =
     (let t = Helper t
      in case applyOptions lib opts new_options of
           Inl err \<Rightarrow> Some (Fatal t (Err err))
         | Inr cfg \<Rightarrow>
             (case NewRequestErr lib httpMethod url of
                Some err \<Rightarrow> Some (Fatal t (Err err))
              | None \<Rightarrow>
                  (let req = newRequest httpMethod url cfg;
                       t = t\<lparr>sent := sent t @ [req]\<rparr>
                   in case client req of
                        Inl err \<Rightarrow> Some (Fatal t (Err err))
                      | Inr resp \<Rightarrow>
                          checkBody lib cfg resp
                            (checkHeaders lib cfg resp (checkStatus lib cfg resp t)))))"

section \<open>The words of the specification\<close>


text \<open>
  The words of the specification for the JSON equality: the response body ``once
  JSON-decoded and re-encoded''. Decoding a JSON text and encoding the value again drops the white space between
  the tokens; on a text whose strings need no escaping and whose members stand in the
  order of the encoder it changes nothing else. The function drops the white space
  outside of string literals; its flag says whether the scan is inside a literal.
\<close>

fun reencode :: "bool \<Rightarrow> string \<Rightarrow> string" where
  "reencode inString [] = []"
| "reencode False (c # cs) =
     (if c = CHR 0x20 \<or> c = CHR 0x09 \<or> c = CHR 0x0A \<or> c = CHR 0x0D then reencode False cs
      else c # reencode (c = CHR 0x22) cs)"
| "reencode True (c # cs) =
     (if c = CHR 0x5C then (case cs of [] \<Rightarrow> [c] | d # ds \<Rightarrow> c # d # reencode True ds)
      else c # reencode (c \<noteq> CHR 0x22) cs)"

text \<open>
  The constructors that the specification names as the only ones whose \<^verbatim>\<open>apply\<close> can
  return an error.
\<close>

definition fallible :: "'v Option \<Rightarrow> bool" where
  "fallible opt =
     (case opt of
        WithJSONRequestBody r \<Rightarrow> True
      | WithMultipartRequest body len filename contentType \<Rightarrow> True
      | _ \<Rightarrow> False)"

text \<open>
  A list of pairs of a key and a value as the options that add them as request
  headers one by one, and the values that such a list adds under a canonical key.
\<close>

definition addHeaders :: "(string \<times> string) list \<Rightarrow> 'v Option list" where
  "addHeaders kvs = map (\<lambda>(key, val). WithRequestHeader key val) kvs"

definition addedValues :: "'v lib \<Rightarrow> (string \<times> string) list \<Rightarrow> string \<Rightarrow> string list" where
  "addedValues lib kvs k =
     map snd (filter (\<lambda>(key, val). CanonicalMIMEHeaderKey lib key = k) kvs)"

text \<open>
  The state in which \<^verbatim>\<open>Request\<close> reaches the validation of the body, for a
  configuration \<open>cfg\<close> and a response \<open>resp\<close>: the handle is marked as a helper, the
  request has been handed to the client, and the status and the headers have been
  checked.
\<close>

definition bodyStart ::
  "'v lib \<Rightarrow> 'v world \<Rightarrow> string \<Rightarrow> string \<Rightarrow> 'v options \<Rightarrow> response \<Rightarrow> 'v world" where
  "bodyStart lib t httpMethod url cfg resp =
     checkHeaders lib cfg resp (checkStatus lib cfg resp
       ((Helper t)\<lparr>sent := sent (Helper t) @ [newRequest httpMethod url cfg]\<rparr>))"

section \<open>An instance of the library for the examples\<close>

text \<open>
  The examples below run the model on concrete calls. They need the library at the
  values that occur in them; this instance gives it there. The values passed as
  \<^verbatim>\<open>interface{}\<close> are structs whose fields are strings, given by their JSON names and
  values in the order of declaration (as \<^verbatim>\<open>response{Message: "text"}\<close> of the
  package's tests), and a channel, which \<^verbatim>\<open>json.Marshal\<close> refuses. Strings are
  taken to need no escaping and header keys to be in canonical form; methods and
  URLs are taken to be valid; no example decodes a response, so the decoder reports
  every body as undecodable.
\<close>

datatype gvalue = Struct "(string \<times> string) list" | Chan

definition quoted :: "string \<Rightarrow> string" where
  "quoted s = [CHR 0x22] @ s @ [CHR 0x22]"

fun joinWith :: "string \<Rightarrow> string list \<Rightarrow> string" where
  "joinWith sep [] = []"
| "joinWith sep [x] = x"
| "joinWith sep (x # y # ys) = x @ sep @ joinWith sep (y # ys)"

definition exMarshal :: "gvalue option \<Rightarrow> string + string" where
  "exMarshal r =
     (case r of
        None \<Rightarrow> Inr ''null''
      | Some (Struct members) \<Rightarrow>
          Inr (''{'' @ joinWith '','' (map (\<lambda>(k, v). quoted k @ '':'' @ quoted v) members)
               @ ''}'')
      | Some Chan \<Rightarrow> Inl ''json: unsupported type: chan int'')"

fun digits :: "nat \<Rightarrow> string" where
  "digits n =
     (if n < 10 then [''0123456789'' ! n]
      else digits (n div 10) @ [''0123456789'' ! (n mod 10)])"

declare digits.simps [simp del]

definition exItoa :: "int \<Rightarrow> string" where
  "exItoa i = (if i < 0 then ''-'' @ digits (nat (- i)) else digits (nat i))"

definition exStatusText :: "int \<Rightarrow> string" where
  "exStatusText code =
     (if code = 200 then ''OK''
      else if code = 400 then ''Bad Request''
      else if code = 404 then ''Not Found''
      else if code = 405 then ''Method Not Allowed''
      else if code = 500 then ''Internal Server Error''
      else [])"

definition CRLF :: string where
  "CRLF = [CHR 0x0D, CHR 0x0A]"

definition exFormData :: "string \<Rightarrow> Header \<Rightarrow> string \<Rightarrow> string" where
  "exFormData boundary hdr data =
     ''--'' @ boundary @ CRLF
     @ concat (map (\<lambda>(k, vs). concat (map (\<lambda>v. k @ '': '' @ v @ CRLF) vs)) hdr)
     @ CRLF @ data @ CRLF @ ''--'' @ boundary @ ''--'' @ CRLF"

definition exampleLib :: "gvalue lib" where
  "exampleLib =
     \<lparr>Marshal = exMarshal,
      Decode = (\<lambda>r. Inl ''json: cannot decode''),
      StatusText = exStatusText,
      CanonicalMIMEHeaderKey = (\<lambda>k. k),
      NewRequestErr = (\<lambda>httpMethod url. None),
      TrimFunc_IsSpace = (\<lambda>s. s),
      Quote = quoted,
      Itoa = exItoa,
      Boundary = ''4f1c'',
      CreatePartErr = None,
      CloseErr = None,
      FormData = exFormData\<rparr>"

text \<open>A fresh test handle with no variables behind pointers.\<close>

definition world0 :: "gvalue world" where
  "world0 = \<lparr>isHelper = False, errors = [], fatal = None, sent = [], ran = [],
     byteVars = (\<lambda>p. None), jsonVars = (\<lambda>p. None)\<rparr>"

text \<open>
  A server that answers every request with status 200, no headers and the body given
  by a reader.
\<close>

definition respond :: "reader \<Rightarrow> request \<Rightarrow> string + response" where
  "respond body req =
     Inr \<lparr>StatusCode = 200, Status = ''200 OK'', RespHeader = [], Body = body\<rparr>"

text \<open>A server that answers every request with a given status and an empty body.\<close>

definition respondStatus :: "int \<Rightarrow> string \<Rightarrow> request \<Rightarrow> string + response" where
  "respondStatus code status req =
     Inr \<lparr>StatusCode = code, Status = status, RespHeader = [], Body = []\<rparr>"

text \<open>
  The value \<^verbatim>\<open>response{Message: "text"}\<close> of the package's tests, its JSON encoding
  \<^verbatim>\<open>{"message":"text"}\<close>, and the same JSON value written with a space after the
  colon, \<^verbatim>\<open>{"message": "text"}\<close>, as other encoders write it.
\<close>

definition messageValue :: gvalue where
  "messageValue = Struct [(''message'', ''text'')]"

definition compactMessage :: string where
  "compactMessage = ''{'' @ quoted ''message'' @ '':'' @ quoted ''text'' @ ''}''"

definition spacedMessage :: string where
  "spacedMessage = ''{'' @ quoted ''message'' @ '': '' @ quoted ''text'' @ ''}''"

section \<open>The streaming comparison\<close>


lemmas readerLoop_induct = readerLoop.raw_induct [rotated 1, consumes 1, case_names step]

lemma frame_keep: "\<exists>es f. (t::'a TB_scheme) = t\<lparr>errors := errors t @ es, fatal := f\<rparr>"
  by (rule exI [of _ "[]"], rule exI [of _ "fatal t"]) simp

lemma frame_Errorf: "\<exists>es f. Errorf t r = t\<lparr>errors := errors t @ es, fatal := f\<rparr>"
  by (rule exI [of _ "[r]"], rule exI [of _ "fatal t"]) (simp add: Errorf_def)

lemma frame_Fatal: "\<exists>es f. Fatal t r = t\<lparr>errors := errors t @ es, fatal := f\<rparr>"
  by (rule exI [of _ "[]"], rule exI [of _ "Some r"]) (simp add: Fatal_def)

text \<open>
  Whatever the loop does to the handle, it only adds reports: the other fields of the
  state are left as they were.
\<close>

lemma readerLoop_frame:
  "readerLoop t len1 len2 cursor r1 r2 = Some t' \<Longrightarrow>
     \<exists>es f. t' = t\<lparr>errors := errors t @ es, fatal := f\<rparr>"
proof (induction rule: readerLoop_induct)
  case (step loop t len1 len2 cursor r1 r2 y)
  then show ?case
    using frame_keep [of t] frame_Errorf [of t] frame_Fatal [of t]
    by (auto split: prod.splits option.splits rerr.splits if_splits simp del: ex_simps)
qed





text \<open>
  C4: both streams are read in chunks of the fixed size of 128 bytes and compared chunk
  by chunk at the same offset. The code compares what one call of \<^verbatim>\<open>Read\<close> on each
  side returns, which may be less than the buffer holds, and it shortens each buffer
  to the length of the last read. Two runs of the code show it. In the first the
  response body arrives in two pieces, \<^verbatim>\<open>ab\<close> and \<^verbatim>\<open>cdefgh\<close>, and the expected
  stream is an in-memory reader of the same eight bytes: the chunks \<^verbatim>\<open>ab\<close> and
  \<^verbatim>\<open>abcdefgh\<close> are compared and a mismatch is reported at position 0, though the
  streams carry the same data. In the second both streams arrive in pieces of two and
  six bytes and differ in the last byte: after the first read the buffers are two
  bytes long, the data is compared two bytes at a time, and the report shows chunks
  of two bytes at position 6.
\<close>

theorem readerContentEqual_short_read:
  "ReadAll [(''ab'', None), (''cdefgh'', None)] = ReadAll (bytesReader ''abcdefgh'') \<and>
   readerContentEqual world0 [(''ab'', None), (''cdefgh'', None)] (bytesReader ''abcdefgh'')
     = Some (Errorf (Helper world0) (DataNotEqual 0 ''ab'' ''abcdefgh'')) \<and>
   readerContentEqual world0 [(''ab'', None), (''cdefgh'', None)]
       [(''ab'', None), (''cdefgX'', None)]
     = Some (Errorf (Helper world0) (DataNotEqual 6 ''gh'' ''gX''))"
  by (simp add: readerContentEqual_def readerLoop.simps bytesReader_def bufSize_def
      eval_nat_numeral)



section \<open>Options\<close>

lemma applyOptions_append:
  "applyOptions lib (xs @ ys) cfg =
     (case applyOptions lib xs cfg of
        Inl err \<Rightarrow> Inl err
      | Inr cfg' \<Rightarrow> applyOptions lib ys cfg')"
  by (induction xs arbitrary: cfg) (auto split: sum.splits)

lemma applyOption_infallible:
  "\<not> fallible opt \<Longrightarrow> \<exists>cfg'. applyOption lib opt cfg = Inr cfg'"
  by (cases opt) (simp_all add: fallible_def)

lemma applyOptions_infallible:
  "list_all (\<lambda>opt. \<not> fallible opt) opts \<Longrightarrow> \<exists>cfg'. applyOptions lib opts cfg = Inr cfg'"
proof (induction opts arbitrary: cfg)
  case Nil
  show ?case by simp
next
  case (Cons opt opts)
  then obtain cfg1 where "applyOption lib opt cfg = Inr cfg1"
    using applyOption_infallible [of opt lib cfg] by auto
  with Cons show ?case by simp
qed

text \<open>
  C3: the options are applied in the order of the arguments, each to the
  configuration that the options before it have built; when an option returns an
  error, after the options before it were applied, \<^verbatim>\<open>Request\<close> ends with that error
  as its fatal report, whatever options follow and whatever the client would answer:
  no request is handed to the client, nothing is reported and no body validation
  is entered.
\<close>

theorem Request_option_error:
  "applyOptions lib (xs @ ys) cfg =
     (case applyOptions lib xs cfg of
        Inl err \<Rightarrow> Inl err
      | Inr cfg' \<Rightarrow> applyOptions lib ys cfg') \<and>
   (applyOptions lib pre new_options = Inr cfg1 \<and> applyOption lib x cfg1 = Inl err \<longrightarrow>
      Request lib t client httpMethod url (pre @ x # post) = Some (Fatal (Helper t) (Err err)) \<and>
      sent (Fatal (Helper t) (Err err)) = sent t \<and>
      errors (Fatal (Helper t) (Err err)) = errors t \<and>
      ran (Fatal (Helper t) (Err err)) = ran t)"
  by (simp add: applyOptions_append Request_def Fatal_def Helper_def)

theorem Request_option_error_witness:
  "applyOptions exampleLib [ExpectStatus 200] new_options
     = Inr (new_options\<lparr>responseCode := 200\<rparr>) \<and>
   applyOption exampleLib (WithJSONRequestBody (Some Chan)) (new_options\<lparr>responseCode := 200\<rparr>)
     = Inl ''json encode request body: json: unsupported type: chan int'' \<and>
   Request exampleLib world0 (respond []) ''POST'' ''http://localhost/''
       [ExpectStatus 200, WithJSONRequestBody (Some Chan), ExpectNoResponseBody]
     = Some (Fatal (Helper world0)
         (Err ''json encode request body: json: unsupported type: chan int''))"
  using Request_option_error [where lib = exampleLib and pre = "[ExpectStatus 200]"
      and ?cfg1.0 = "new_options\<lparr>responseCode := 200\<rparr>"
      and x = "WithJSONRequestBody (Some Chan)"
      and err = "''json encode request body: json: unsupported type: chan int''"
      and t = world0 and client = "respond []" and httpMethod = "''POST''"
      and url = "''http://localhost/''" and post = "[ExpectNoResponseBody]"]
  by (simp add: exampleLib_def exMarshal_def)

text \<open>
  C10: of the thirteen constructors only \<^verbatim>\<open>WithJSONRequestBody\<close> and
  \<^verbatim>\<open>WithMultipartRequest\<close> can return an error: the option of every other
  constructor returns a configuration, and a list of such options is applied to the
  end, so that \<^verbatim>\<open>Request\<close> does not abort while it applies them. The two can
  fail: the first when the JSON encoder refuses the value, the second when the
  multipart writer fails or the body cannot be read to its end.
\<close>

theorem applyOption_errors:
  "(\<not> fallible opt \<longrightarrow> (\<exists>cfg'. applyOption lib opt cfg = Inr cfg')) \<and>
   (list_all (\<lambda>opt. \<not> fallible opt) opts \<longrightarrow>
      (\<exists>cfg'. applyOptions lib opts new_options = Inr cfg')) \<and>
   (Marshal lib r = Inl err \<longrightarrow>
      applyOption lib (WithJSONRequestBody r) cfg = Inl (''json encode request body: '' @ err)) \<and>
   (CreatePartErr lib = None \<and> Copy body = (data, Some err) \<longrightarrow>
      applyOption lib (WithMultipartRequest body len filename contentType) cfg
        = Inl (''copy file data to multipart part: '' @ err))"
  using applyOption_infallible [of opt lib cfg] applyOptions_infallible [of opts lib new_options]
  by auto

theorem applyOption_errors_witness:
  "applyOption exampleLib (ExpectStatus 404) new_options
     = Inr (new_options\<lparr>responseCode := 404\<rparr>) \<and>
   (\<exists>cfg'. applyOptions exampleLib [WithRequestHeader ''Accept'' ''text/plain'',
       ExpectStatus 200, PutResponseBody (Some 1)] new_options = Inr cfg') \<and>
   applyOption exampleLib (WithJSONRequestBody (Some Chan)) new_options
     = Inl ''json encode request body: json: unsupported type: chan int'' \<and>
   applyOption exampleLib
       (WithMultipartRequest [(''some'', Some (Failure ''unexpected EOF''))] 8 ''Test.jpg''
          ''image/jpeg'') new_options
     = Inl ''copy file data to multipart part: unexpected EOF''"
  using
    applyOption_errors [where opt = "ExpectStatus 404" and lib = exampleLib
      and cfg = new_options
      and opts = "[WithRequestHeader ''Accept'' ''text/plain'', ExpectStatus 200,
        PutResponseBody (Some 1)]"
      and r = "Some Chan" and err = "''json: unsupported type: chan int''"]
    applyOption_errors [where opt = "ExpectStatus 404" and lib = exampleLib
      and cfg = new_options and opts = "[]"
      and body = "[(''some'', Some (Failure ''unexpected EOF''))]" and data = "''some''"
      and err = "''unexpected EOF''" and len = 8 and filename = "''Test.jpg''"
      and contentType = "''image/jpeg''"]
  by (simp add: fallible_def exampleLib_def exMarshal_def Copy_def)

text \<open>Request headers.\<close>

lemma Header_values_Add:
  "Header_values (Header_Add lib h key val) k =
     Header_values h k @ (if k = CanonicalMIMEHeaderKey lib key then [val] else [])"
  by (simp add: Header_Add_def Header_values_def Let_def update_conv' split: option.splits)

lemma Header_keys_Add:
  "fst ` set (Header_Add lib h key val) = insert (CanonicalMIMEHeaderKey lib key) (fst ` set h)"
  by (simp add: Header_Add_def Let_def dom_update)

lemma applyOptions_addHeaders:
  "\<exists>cfg'. applyOptions lib (addHeaders kvs) cfg = Inr cfg' \<and>
     (\<forall>k. Header_values (nilHeader (requestHeaders cfg')) k =
        Header_values (nilHeader (requestHeaders cfg)) k @ addedValues lib kvs k) \<and>
     fst ` set (nilHeader (requestHeaders cfg')) =
       fst ` set (nilHeader (requestHeaders cfg)) \<union> CanonicalMIMEHeaderKey lib ` fst ` set kvs"
proof (induction kvs arbitrary: cfg)
  case Nil
  show ?case by (simp add: addHeaders_def addedValues_def)
next
  case (Cons kv kvs)
  obtain key val where kv: "kv = (key, val)" by (cases kv)
  let ?cfg1 = "cfg\<lparr>requestHeaders := Some (Header_Add lib (nilHeader (requestHeaders cfg)) key val)\<rparr>"
  from Cons [of ?cfg1] obtain cfg' where cfg':
    "applyOptions lib (addHeaders kvs) ?cfg1 = Inr cfg'"
    "\<And>k. Header_values (nilHeader (requestHeaders cfg')) k =
        Header_values (nilHeader (requestHeaders ?cfg1)) k @ addedValues lib kvs k"
    "fst ` set (nilHeader (requestHeaders cfg')) =
       fst ` set (nilHeader (requestHeaders ?cfg1)) \<union> CanonicalMIMEHeaderKey lib ` fst ` set kvs"
    by blast
  have "applyOptions lib (addHeaders (kv # kvs)) cfg = Inr cfg'"
    using cfg'(1) by (simp add: kv addHeaders_def)
  moreover have "Header_values (nilHeader (requestHeaders cfg')) k =
      Header_values (nilHeader (requestHeaders cfg)) k @ addedValues lib (kv # kvs) k" for k
    using cfg'(2) [of k]
    by (simp add: kv nilHeader_def Header_values_Add addedValues_def)
  moreover have "fst ` set (nilHeader (requestHeaders cfg')) =
      fst ` set (nilHeader (requestHeaders cfg))
        \<union> CanonicalMIMEHeaderKey lib ` fst ` set (kv # kvs)"
    using cfg'(3) by (simp add: kv nilHeader_def Header_keys_Add)
  ultimately show ?case by blast
qed

text \<open>
  C7: header options that add a single header accumulate: under every key the values
  after the options are the values before them followed by the values added under
  that key, in the order of the options, and no key is lost. An option that replaces
  the header set discards what the options before it have set, and the options that
  add a header after it extend the replacement set in the same way.
\<close>

theorem request_header_options:
  "(\<exists>cfg'. applyOptions lib (addHeaders kvs) cfg = Inr cfg' \<and>
      (\<forall>k. Header_values (nilHeader (requestHeaders cfg')) k =
         Header_values (nilHeader (requestHeaders cfg)) k @ addedValues lib kvs k) \<and>
      fst ` set (nilHeader (requestHeaders cfg')) =
        fst ` set (nilHeader (requestHeaders cfg))
          \<union> CanonicalMIMEHeaderKey lib ` fst ` set kvs) \<and>
   (applyOptions lib pre cfg = Inr cfg1 \<longrightarrow>
      (\<exists>cfg'. applyOptions lib (pre @ WithRequestHeaders h # addHeaders kvs) cfg = Inr cfg' \<and>
         (\<forall>k. Header_values (nilHeader (requestHeaders cfg')) k =
            Header_values (nilHeader h) k @ addedValues lib kvs k) \<and>
         fst ` set (nilHeader (requestHeaders cfg')) =
           fst ` set (nilHeader h) \<union> CanonicalMIMEHeaderKey lib ` fst ` set kvs))"
proof (intro conjI impI)
  show "\<exists>cfg'. applyOptions lib (addHeaders kvs) cfg = Inr cfg' \<and>
      (\<forall>k. Header_values (nilHeader (requestHeaders cfg')) k =
         Header_values (nilHeader (requestHeaders cfg)) k @ addedValues lib kvs k) \<and>
      fst ` set (nilHeader (requestHeaders cfg')) =
        fst ` set (nilHeader (requestHeaders cfg))
          \<union> CanonicalMIMEHeaderKey lib ` fst ` set kvs"
    by (rule applyOptions_addHeaders)
next
  assume pre: "applyOptions lib pre cfg = Inr cfg1"
  show "\<exists>cfg'. applyOptions lib (pre @ WithRequestHeaders h # addHeaders kvs) cfg = Inr cfg' \<and>
      (\<forall>k. Header_values (nilHeader (requestHeaders cfg')) k =
         Header_values (nilHeader h) k @ addedValues lib kvs k) \<and>
      fst ` set (nilHeader (requestHeaders cfg')) =
        fst ` set (nilHeader h) \<union> CanonicalMIMEHeaderKey lib ` fst ` set kvs"
    using applyOptions_addHeaders [of lib kvs "cfg1\<lparr>requestHeaders := h\<rparr>"] pre
    by (simp add: applyOptions_append)
qed

theorem request_header_options_witness:
  "applyOptions exampleLib [WithRequestHeader ''Test-Header'' ''old''] new_options
     = Inr (new_options\<lparr>requestHeaders := Some [(''Test-Header'', [''old''])]\<rparr>) \<and>
   (\<exists>cfg'. applyOptions exampleLib
        [WithRequestHeader ''Test-Header'' ''old'',
         WithRequestHeaders (Some [(''Test-2'', [''two'']), (''Test-3'', [''three''])]),
         WithRequestHeader ''Test-Header'' ''value'',
         WithRequestHeader ''Test-Header'' ''more''] new_options = Inr cfg' \<and>
      Header_values (nilHeader (requestHeaders cfg')) ''Test-Header'' = [''value'', ''more''] \<and>
      Header_values (nilHeader (requestHeaders cfg')) ''Test-2'' = [''two''] \<and>
      fst ` set (nilHeader (requestHeaders cfg')) = {''Test-Header'', ''Test-2'', ''Test-3''})"
proof -
  let ?h = "Some [(''Test-2'', [''two'']), (''Test-3'', [''three''])]"
  let ?kvs = "[(''Test-Header'', ''value''), (''Test-Header'', ''more'')]"
  have pre: "applyOptions exampleLib [WithRequestHeader ''Test-Header'' ''old''] new_options
     = Inr (new_options\<lparr>requestHeaders := Some [(''Test-Header'', [''old''])]\<rparr>)"
    by (simp add: exampleLib_def new_options_def nilHeader_def Header_Add_def
        Header_values_def)
  have "applyOptions exampleLib [WithRequestHeader ''Test-Header'' ''old''] new_options
       = Inr (new_options\<lparr>requestHeaders := Some [(''Test-Header'', [''old''])]\<rparr>) \<longrightarrow>
     (\<exists>cfg'. applyOptions exampleLib ([WithRequestHeader ''Test-Header'' ''old'']
          @ WithRequestHeaders ?h # addHeaders ?kvs) new_options = Inr cfg' \<and>
        (\<forall>k. Header_values (nilHeader (requestHeaders cfg')) k =
           Header_values (nilHeader ?h) k @ addedValues exampleLib ?kvs k) \<and>
        fst ` set (nilHeader (requestHeaders cfg')) =
          fst ` set (nilHeader ?h) \<union> CanonicalMIMEHeaderKey exampleLib ` fst ` set ?kvs)"
    by (rule conjunct2 [OF request_header_options])
  then obtain cfg' where run:
    "applyOptions exampleLib ([WithRequestHeader ''Test-Header'' ''old'']
        @ WithRequestHeaders ?h # addHeaders ?kvs) new_options = Inr cfg'"
    and vals: "\<And>k. Header_values (nilHeader (requestHeaders cfg')) k =
       Header_values (nilHeader ?h) k @ addedValues exampleLib ?kvs k"
    and keys: "fst ` set (nilHeader (requestHeaders cfg')) =
       fst ` set (nilHeader ?h) \<union> CanonicalMIMEHeaderKey exampleLib ` fst ` set ?kvs"
    using pre by (elim impE exE conjE) (assumption, blast)
  have 1: "applyOptions exampleLib
        [WithRequestHeader ''Test-Header'' ''old'', WithRequestHeaders ?h,
         WithRequestHeader ''Test-Header'' ''value'',
         WithRequestHeader ''Test-Header'' ''more''] new_options = Inr cfg'"
    using run by (simp add: addHeaders_def)
  have cn: "CanonicalMIMEHeaderKey exampleLib = (\<lambda>k. k)"
    by (simp add: exampleLib_def)
  have 2: "Header_values (nilHeader (requestHeaders cfg')) ''Test-Header'' = [''value'', ''more'']"
    unfolding vals by (simp add: addedValues_def nilHeader_def Header_values_def cn)
  have 3: "Header_values (nilHeader (requestHeaders cfg')) ''Test-2'' = [''two'']"
    unfolding vals by (simp add: addedValues_def nilHeader_def Header_values_def cn)
  have 4: "fst ` set (nilHeader (requestHeaders cfg')) = {''Test-Header'', ''Test-2'', ''Test-3''}"
    unfolding keys by (simp add: nilHeader_def cn)
  from pre 1 2 3 4 show ?thesis by blast
qed

section \<open>Request: status and choice of the body validation\<close>

lemma Request_response:
  assumes "applyOptions lib opts new_options = Inr cfg"
    and "NewRequestErr lib httpMethod url = None"
    and "client (newRequest httpMethod url cfg) = Inr resp"
  shows "Request lib t client httpMethod url opts =
     checkBody lib cfg resp (bodyStart lib t httpMethod url cfg resp)"
  using assms by (simp add: Request_def bodyStart_def Let_def)









lemma errors_checkHeader:
  "\<exists>es. errors (checkHeader lib cfg resp t key) = errors t @ es"
  by (auto simp: checkHeader_def Let_def Errorf_def)

lemma errors_foldl_checkHeader:
  "\<exists>es. errors (foldl (checkHeader lib cfg resp) t keys) = errors t @ es"
proof (induction keys arbitrary: t)
  case Nil
  show ?case by simp
next
  case (Cons key keys)
  obtain es where "errors (foldl (checkHeader lib cfg resp) (checkHeader lib cfg resp t key) keys)
      = errors (checkHeader lib cfg resp t key) @ es"
    using Cons [of "checkHeader lib cfg resp t key"] by blast
  moreover obtain es1 where "errors (checkHeader lib cfg resp t key) = errors t @ es1"
    using errors_checkHeader by blast
  ultimately show ?case by simp
qed

lemma errors_checkBody:
  assumes "checkBody lib cfg resp t = Some t'"
  shows "\<exists>es. errors t' = errors t @ es"
proof (cases "expectedResponse cfg")
  case (Some r2)
  with assms have "readerLoop (Helper (t\<lparr>ran := ran t @ [StreamComparison]\<rparr>))
      bufSize bufSize 0 (Body resp) r2 = Some t'"
    by (simp add: checkBody_def readerContentEqual_def)
  from readerLoop_frame [OF this] show ?thesis
    by (auto simp: Helper_def)
next
  case None
  with assms show ?thesis
    by (auto simp: checkBody_def Let_def Fatal_def Errorf_def
        split: option.splits prod.splits sum.splits if_splits)
qed

text \<open>
  A report of a status mismatch stays on the handle to the end of the call: the
  checks of the headers and of the body only add reports.
\<close>

lemma Request_status_kept:
  assumes "applyOptions lib opts new_options = Inr cfg"
    and "NewRequestErr lib httpMethod url = None"
    and "client (newRequest httpMethod url cfg) = Inr resp"
  shows "responseCode cfg \<noteq> 0 \<and> StatusCode resp \<noteq> responseCode cfg \<and>
        Request lib t client httpMethod url opts = Some t' \<longrightarrow>
        (\<exists>es. errors t' = errors t @ StatusMismatch (Status resp) (responseCode cfg)
                  (StatusText lib (responseCode cfg)) # es)"
proof (intro impI, elim conjE)
  assume nz: "responseCode cfg \<noteq> 0" and ne: "StatusCode resp \<noteq> responseCode cfg"
    and run: "Request lib t client httpMethod url opts = Some t'"
  let ?r = "StatusMismatch (Status resp) (responseCode cfg) (StatusText lib (responseCode cfg))"
  let ?t1 = "checkStatus lib cfg resp
    ((Helper t)\<lparr>sent := sent (Helper t) @ [newRequest httpMethod url cfg]\<rparr>)"
  have e1: "errors ?t1 = errors t @ [?r]"
    using nz ne by (simp add: checkStatus_def Errorf_def Helper_def)
  obtain es2 where e2: "errors (checkHeaders lib cfg resp ?t1) = errors ?t1 @ es2"
    unfolding checkHeaders_def using errors_foldl_checkHeader by blast
  have "checkBody lib cfg resp (checkHeaders lib cfg resp ?t1) = Some t'"
    using run Request_response [where client = client, OF assms, of t]
    by (simp add: bodyStart_def)
  from errors_checkBody [OF this] obtain es3 where
    "errors t' = errors (checkHeaders lib cfg resp ?t1) @ es3" by blast
  with e1 e2 show "\<exists>es. errors t' = errors t @ ?r # es" by simp
qed

text \<open>
  C6: when the configured status code is not zero and differs from the status code of
  the response, the mismatch is reported through \<^verbatim>\<open>Errorf\<close> with the status line of
  the response, the expected code and its status text, and the checks of the headers
  and of the body are made on the handle that holds the report; when the call
  returns, the report is on the handle, after the reports that were there before the
  call. When the configured code is zero, or equal to the code of the response,
  nothing is reported and the same checks are made; with a zero code the status of
  the response has no influence.
\<close>

theorem Request_status:
  assumes "applyOptions lib opts new_options = Inr cfg"
    and "NewRequestErr lib httpMethod url = None"
    and "client (newRequest httpMethod url cfg) = Inr resp"
  shows "Request lib t client httpMethod url opts =
     checkBody lib cfg resp (checkHeaders lib cfg resp
       (if responseCode cfg \<noteq> 0 \<and> StatusCode resp \<noteq> responseCode cfg
        then Errorf ((Helper t)\<lparr>sent := sent (Helper t) @ [newRequest httpMethod url cfg]\<rparr>)
               (StatusMismatch (Status resp) (responseCode cfg)
                  (StatusText lib (responseCode cfg)))
        else (Helper t)\<lparr>sent := sent (Helper t) @ [newRequest httpMethod url cfg]\<rparr>)) \<and>
     checkStatus lib (cfg\<lparr>responseCode := 0\<rparr>) (resp\<lparr>StatusCode := code, Status := line\<rparr>) t1
       = t1 \<and>
     (responseCode cfg \<noteq> 0 \<and> StatusCode resp \<noteq> responseCode cfg \<and>
      Request lib t client httpMethod url opts = Some t' \<longrightarrow>
        (\<exists>es. errors t' = errors t @ StatusMismatch (Status resp) (responseCode cfg)
                  (StatusText lib (responseCode cfg)) # es))"
proof (intro conjI)
  show "Request lib t client httpMethod url opts =
     checkBody lib cfg resp (checkHeaders lib cfg resp
       (if responseCode cfg \<noteq> 0 \<and> StatusCode resp \<noteq> responseCode cfg
        then Errorf ((Helper t)\<lparr>sent := sent (Helper t) @ [newRequest httpMethod url cfg]\<rparr>)
               (StatusMismatch (Status resp) (responseCode cfg)
                  (StatusText lib (responseCode cfg)))
        else (Helper t)\<lparr>sent := sent (Helper t) @ [newRequest httpMethod url cfg]\<rparr>))"
    using assms by (simp add: Request_def checkStatus_def Let_def)
  show "checkStatus lib (cfg\<lparr>responseCode := 0\<rparr>)
      (resp\<lparr>StatusCode := code, Status := line\<rparr>) t1 = t1"
    by (simp add: checkStatus_def)
  show "responseCode cfg \<noteq> 0 \<and> StatusCode resp \<noteq> responseCode cfg \<and>
      Request lib t client httpMethod url opts = Some t' \<longrightarrow>
        (\<exists>es. errors t' = errors t @ StatusMismatch (Status resp) (responseCode cfg)
                  (StatusText lib (responseCode cfg)) # es)"
    by (rule Request_status_kept [where client = client, OF assms])
qed


theorem Request_status_witness:
  "applyOptions exampleLib [ExpectStatus 200] new_options
     = Inr (new_options\<lparr>responseCode := 200\<rparr>) \<and>
   NewRequestErr exampleLib ''GET'' ''http://localhost/'' = None \<and>
   Request exampleLib world0 (respondStatus 400 ''400 Bad Request'') ''GET''
       ''http://localhost/'' [ExpectStatus 200]
     = Some (Errorf
         ((Helper world0)\<lparr>sent :=
            [\<lparr>Method = ''GET'', URL = ''http://localhost/'', ReqBody = None, Header = None,
              Ctx = None\<rparr>]\<rparr>)
         (StatusMismatch ''400 Bad Request'' 200 ''OK''))"
  using Request_status [where lib = exampleLib and opts = "[ExpectStatus 200]"
      and cfg = "new_options\<lparr>responseCode := 200\<rparr>" and httpMethod = "''GET''"
      and url = "''http://localhost/''" and client = "respondStatus 400 ''400 Bad Request''"
      and resp = "\<lparr>StatusCode = 400, Status = ''400 Bad Request'', RespHeader = [], Body = []\<rparr>"
      and t = world0 and code = 500 and line = "''500 Internal Server Error''"
      and ?t1.0 = world0 and t' = world0]
  by (simp add: exampleLib_def respondStatus_def exStatusText_def checkBody_def
      checkHeaders_def new_options_def nilHeader_def world0_def Helper_def newRequest_def)


section \<open>Request: JSON equality\<close>

lemma dropWhile_spaces:
  assumes "list_all asciiSpace ws" and "xs \<noteq> []" and "\<not> asciiSpace (hd xs)"
  shows "dropWhile asciiSpace (ws @ xs) = xs"
proof -
  have "dropWhile asciiSpace (ws @ xs) = dropWhile asciiSpace xs"
    using assms(1) by (intro dropWhile_append2) (simp add: list_all_iff)
  also have "\<dots> = xs"
    using assms(2,3) by (cases xs) simp_all
  finally show ?thesis .
qed

text \<open>
  \<^verbatim>\<open>bytes.TrimSpace\<close> takes ASCII white space off both ends of a text that starts and
  ends with ASCII bytes that are not white space.
\<close>

lemma TrimSpace_surrounded:
  assumes "list_all asciiSpace lead" and "list_all asciiSpace trail" and "want \<noteq> []"
    and "\<not> asciiSpace (hd want)" and "of_char (hd want) < RuneSelf"
    and "\<not> asciiSpace (last want)" and "of_char (last want) < RuneSelf"
  shows "TrimSpace lib (lead @ want @ trail) = want"
proof -
  obtain c cs where want: "want = c # cs"
    using assms(3) by (cases want) auto
  have front: "dropWhile asciiSpace (lead @ want @ trail) = c # (cs @ trail)"
    using dropWhile_spaces [of lead "want @ trail"] assms(1,3,4) by (simp add: want)
  have c: "\<not> RuneSelf \<le> of_char c"
    using assms(5) by (simp add: want)
  obtain d ds where rev_want: "rev want = d # ds"
    using assms(3) by (cases "rev want") auto
  have d: "d = last want"
    using rev_want assms(3) by (metis hd_rev list.sel(1))
  have rear: "dropWhile asciiSpace (rev (c # (cs @ trail))) = d # ds"
    using dropWhile_spaces [of "rev trail" "rev want"] assms(2,3,6) rev_want d
    by (simp add: want list_all_iff)
  have dd: "\<not> RuneSelf \<le> of_char d"
    using assms(7) d by simp
  have "rev (d # ds) = want"
    using rev_want by (metis rev_rev_ident)
  then show ?thesis
    unfolding TrimSpace_def front
    using c rear dd by simp
qed

text \<open>
  C8, as the specification states it: the response body is JSON-decoded and encoded
  again, and the result is compared with the encoding of the expectation; a mismatch
  shows both re-encoded texts. The code does not decode the body. Here the server
  answers \<^verbatim>\<open>{"message": "text"}\<close>, whose decoding and re-encoding is the encoding
  \<^verbatim>\<open>{"message":"text"}\<close> of the expectation: the code reports a mismatch, and the
  report shows the body as it was received.
\<close>

theorem Request_json_counterexample:
  "reencode False spacedMessage = compactMessage \<and>
   exMarshal (Some messageValue) = Inr compactMessage \<and>
   map_option errors
     (Request exampleLib world0 (respond (bytesReader spacedMessage)) ''GET''
        ''http://localhost/'' [ExpectedJSONResponse (Some messageValue)])
     = Some [JSONMismatch spacedMessage compactMessage]"
  by (simp add: spacedMessage_def compactMessage_def messageValue_def quoted_def
      exMarshal_def Request_def exampleLib_def respond_def checkBody_def checkHeaders_def
      checkStatus_def new_options_def nilHeader_def world0_def Helper_def Errorf_def
      bytesReader_def TrimSpace_def asciiSpace_def RuneSelf_def Let_def)

text \<open>
  C8, amended: when the JSON-equality expectation is in effect and no full-body
  expectation is, the response body is read to its end and trimmed of leading and
  trailing white space (it is not JSON-decoded or encoded again), and the result is
  compared byte for byte with the JSON encoding of the expectation; a mismatch is
  reported through \<^verbatim>\<open>Errorf\<close>, and the report shows the trimmed body and the
  encoding of the expectation.
\<close>

theorem Request_json_equality:
  assumes "applyOptions lib opts new_options = Inr cfg"
    and "NewRequestErr lib httpMethod url = None"
    and "client (newRequest httpMethod url cfg) = Inr resp"
    and "expectedResponse cfg = None"
    and "expectedJSONResponse cfg = Some v"
    and "ReadAll (Body resp) = (got, None)"
    and "Marshal lib (Some v) = Inr want"
  shows "Request lib t client httpMethod url opts =
     Some (let tb = (bodyStart lib t httpMethod url cfg resp)
                      \<lparr>ran := ran (bodyStart lib t httpMethod url cfg resp) @ [JSONEquality]\<rparr>
           in if TrimSpace lib got = want then tb
              else Errorf tb (JSONMismatch (TrimSpace lib got) want))"
  using assms(4-7)
  by (simp add: Request_response [where client = client, OF assms(1-3)] checkBody_def Let_def)

theorem Request_json_equality_witness:
  "applyOptions exampleLib [ExpectedJSONResponse (Some messageValue)] new_options
     = Inr (new_options\<lparr>expectedJSONResponse := Some messageValue\<rparr>) \<and>
   ReadAll (bytesReader ''not found'') = (''not found'', None) \<and>
   Marshal exampleLib (Some messageValue) = Inr compactMessage \<and>
   map_option errors
     (Request exampleLib world0 (respond (bytesReader ''not found'')) ''GET''
        ''http://localhost/'' [ExpectedJSONResponse (Some messageValue)])
     = Some [JSONMismatch ''not found'' compactMessage]"
  using Request_json_equality [where lib = exampleLib
      and opts = "[ExpectedJSONResponse (Some messageValue)]"
      and cfg = "new_options\<lparr>expectedJSONResponse := Some messageValue\<rparr>"
      and httpMethod = "''GET''" and url = "''http://localhost/''"
      and client = "respond (bytesReader ''not found'')"
      and resp = "\<lparr>StatusCode = 200, Status = ''200 OK'', RespHeader = [],
         Body = bytesReader ''not found''\<rparr>"
      and v = messageValue and got = "''not found''" and want = compactMessage
      and t = world0]
  by (simp add: exampleLib_def respond_def new_options_def bytesReader_def
      compactMessage_def messageValue_def quoted_def exMarshal_def
      bodyStart_def checkHeaders_def checkStatus_def nilHeader_def world0_def Helper_def
      Errorf_def TrimSpace_def asciiSpace_def RuneSelf_def Let_def)

text \<open>
  C9: the body is trimmed before the comparison, so a response that consists of the
  encoding of the expectation with ASCII white space before and after it (the
  newlines that an encoder or \<^verbatim>\<open>Fprintln\<close> adds) is found equal: the body validation
  adds no report. The encoding starts and ends with ASCII bytes that are not white
  space, as every JSON text does.
\<close>

theorem Request_json_trimmed:
  assumes "applyOptions lib opts new_options = Inr cfg"
    and "NewRequestErr lib httpMethod url = None"
    and "client (newRequest httpMethod url cfg) = Inr resp"
    and "expectedResponse cfg = None"
    and "expectedJSONResponse cfg = Some v"
    and "Marshal lib (Some v) = Inr want"
    and "ReadAll (Body resp) = (lead @ want @ trail, None)"
    and "list_all asciiSpace lead" and "list_all asciiSpace trail"
    and "want \<noteq> []"
    and "\<not> asciiSpace (hd want)" and "of_char (hd want) < RuneSelf"
    and "\<not> asciiSpace (last want)" and "of_char (last want) < RuneSelf"
  shows "TrimSpace lib (lead @ want @ trail) = want \<and>
     Request lib t client httpMethod url opts =
       Some ((bodyStart lib t httpMethod url cfg resp)
               \<lparr>ran := ran (bodyStart lib t httpMethod url cfg resp) @ [JSONEquality]\<rparr>)"
proof -
  have trim: "TrimSpace lib (lead @ want @ trail) = want"
    using assms(8-14) by (rule TrimSpace_surrounded)
  then show ?thesis
    using assms(4-7)
    by (simp add: Request_response [where client = client, OF assms(1-3)] checkBody_def
        Let_def)
qed

theorem Request_json_trimmed_witness:
  "applyOptions exampleLib [ExpectedJSONResponse (Some messageValue)] new_options
     = Inr (new_options\<lparr>expectedJSONResponse := Some messageValue\<rparr>) \<and>
   Marshal exampleLib (Some messageValue) = Inr compactMessage \<and>
   list_all asciiSpace [CHR 0x0A, CHR 0x0A] \<and>
   map_option errors
     (Request exampleLib world0
        (respond (bytesReader (compactMessage @ [CHR 0x0A, CHR 0x0A]))) ''GET''
        ''http://localhost/'' [ExpectedJSONResponse (Some messageValue)])
     = Some []"
  using Request_json_trimmed [where lib = exampleLib
      and opts = "[ExpectedJSONResponse (Some messageValue)]"
      and cfg = "new_options\<lparr>expectedJSONResponse := Some messageValue\<rparr>"
      and httpMethod = "''GET''" and url = "''http://localhost/''"
      and client = "respond (bytesReader (compactMessage @ [CHR 0x0A, CHR 0x0A]))"
      and resp = "\<lparr>StatusCode = 200, Status = ''200 OK'', RespHeader = [],
         Body = bytesReader (compactMessage @ [CHR 0x0A, CHR 0x0A])\<rparr>"
      and v = messageValue and want = compactMessage and lead = "[]"
      and trail = "[CHR 0x0A, CHR 0x0A]" and t = world0]
  by (simp add: exampleLib_def respond_def new_options_def bytesReader_def
      compactMessage_def messageValue_def quoted_def exMarshal_def
      bodyStart_def checkHeaders_def checkStatus_def nilHeader_def world0_def Helper_def
      asciiSpace_def RuneSelf_def)

section \<open>The package's tests, run on the model\<close>

text \<open>
  \<^verbatim>\<open>TestExpectedResponse\<close>: the body of 180 bytes against itself gives no report, and
  against \<^verbatim>\<open>invalid\<close> the report of the test: position 0, the first 128 bytes of
  the body, and the expected text.
\<close>

lemma TestExpectedResponse:
  "readerContentEqual world0 (bytesReader (concat (replicate 10 ''something to want '')))
       (bytesReader (concat (replicate 10 ''something to want '')))
     = Some (Helper world0) \<and>
   readerContentEqual world0 (bytesReader (concat (replicate 10 ''something to want '')))
       (bytesReader ''invalid'')
     = Some (Errorf (Helper world0)
         (DataNotEqual 0 (take 128 (concat (replicate 10 ''something to want ''))) ''invalid''))"
  by (simp add: readerContentEqual_def readerLoop.simps bytesReader_def bufSize_def
      eval_nat_numeral)

text \<open>
  \<^verbatim>\<open>TestExpectedJSONResponse\<close>: the handler writes the encoding of the message and
  two newlines; the expectation with the message \<^verbatim>\<open>invalid\<close> gives the report of the
  test.
\<close>

lemma TestExpectedJSONResponse:
  "map_option errors
     (Request exampleLib world0
        (respond (bytesReader (compactMessage @ [CHR 0x0A, CHR 0x0A]))) ''GET''
        ''http://localhost/'' [ExpectedJSONResponse (Some (Struct [(''message'', ''invalid'')]))])
     = Some [JSONMismatch compactMessage
         (''{'' @ quoted ''message'' @ '':'' @ quoted ''invalid'' @ ''}'')]"
  by (simp add: compactMessage_def quoted_def exMarshal_def Request_def exampleLib_def
      respond_def checkBody_def checkHeaders_def checkStatus_def new_options_def
      nilHeader_def world0_def Helper_def Errorf_def bytesReader_def TrimSpace_def
      asciiSpace_def RuneSelf_def Let_def)

text \<open>
  \<^verbatim>\<open>TestExpectNoResponseBody\<close>: an empty body gives no report, the body
  \<^verbatim>\<open>not found\<close> the report of the test.
\<close>

lemma TestExpectNoResponseBody:
  "map_option errors
     (Request exampleLib world0 (respond (bytesReader [])) ''GET'' ''http://localhost/''
        [ExpectNoResponseBody])
     = Some [] \<and>
   map_option errors
     (Request exampleLib world0 (respond (bytesReader ''not found'')) ''GET''
        ''http://localhost/test'' [ExpectNoResponseBody])
     = Some [BodyNotEmpty ''not found'']"
  by (simp add: Request_def exampleLib_def respond_def checkBody_def checkHeaders_def
      checkStatus_def new_options_def nilHeader_def world0_def Helper_def Errorf_def
      bytesReader_def Let_def)

end
